theory Spec2Isabelle
  imports Main "HOL-Library.Word"
begin

unbundle bit_operations_syntax

chapter \<open>The model\<close>

section \<open>Quorum parameter table (chainparams.cpp)\<close>

text \<open>
  The four static \<open>Consensus::LLMQParams\<close> records of chainparams.cpp and the
  \<open>consensus.llmqs\<close> map that each network's constructor fills. The fields are C++
  \<open>int\<close>s holding small constants, modelled as \<open>int\<close>. The fields \<open>type\<close>,
  \<open>name\<close> and \<open>size\<close> carry the suffix \<open>_llmq\<close>.
\<close>

datatype LLMQType = LLMQ_50_60 | LLMQ_400_60 | LLMQ_400_85 | LLMQ_10_60

record LLMQParams =
  type_llmq :: LLMQType
  name_llmq :: string
  size_llmq :: int
  minSize :: int
  threshold :: int
  dkgInterval :: int
  dkgPhaseBlocks :: int
  dkgMiningWindowStart :: int
  dkgMiningWindowEnd :: int

definition llmq10_60 :: LLMQParams where
  "llmq10_60 = \<lparr> type_llmq = LLMQ_10_60, name_llmq = ''llmq_10'',
     size_llmq = 10, minSize = 6, threshold = 6,
     dkgInterval = 24, dkgPhaseBlocks = 2,
     dkgMiningWindowStart = 10, dkgMiningWindowEnd = 18 \<rparr>"

definition llmq50_60 :: LLMQParams where
  "llmq50_60 = \<lparr> type_llmq = LLMQ_50_60, name_llmq = ''llmq_50_60'',
     size_llmq = 50, minSize = 40, threshold = 30,
     dkgInterval = 24, dkgPhaseBlocks = 2,
     dkgMiningWindowStart = 10, dkgMiningWindowEnd = 18 \<rparr>"

definition llmq400_60 :: LLMQParams where
  "llmq400_60 = \<lparr> type_llmq = LLMQ_400_60, name_llmq = ''llmq_400_51'',
     size_llmq = 400, minSize = 300, threshold = 240,
     dkgInterval = 24 * 12, dkgPhaseBlocks = 4,
     dkgMiningWindowStart = 20, dkgMiningWindowEnd = 28 \<rparr>"

definition llmq400_85 :: LLMQParams where
  "llmq400_85 = \<lparr> type_llmq = LLMQ_400_85, name_llmq = ''llmq_400_85'',
     size_llmq = 400, minSize = 350, threshold = 340,
     dkgInterval = 24 * 24, dkgPhaseBlocks = 4,
     dkgMiningWindowStart = 20, dkgMiningWindowEnd = 48 \<rparr>"

text \<open>The networks \<open>Params(chain)\<close> selects between.\<close>

datatype Network = MAIN | TESTNET | DEVNET | REGTEST

text \<open>
  \<open>consensus.llmqs[...] = ...\<close> in the constructors of \<open>CMainParams\<close>,
  \<open>CTestNetParams\<close>, \<open>CDevNetParams\<close> and \<open>CRegTestParams\<close>, in the order of the
  assignments.
\<close>

fun consensus_llmqs :: "Network \<Rightarrow> LLMQType \<rightharpoonup> LLMQParams" where
  "consensus_llmqs MAIN =
     Map.empty(LLMQ_50_60 \<mapsto> llmq50_60, LLMQ_400_60 \<mapsto> llmq400_60, LLMQ_400_85 \<mapsto> llmq400_85)"
| "consensus_llmqs TESTNET =
     Map.empty(LLMQ_50_60 \<mapsto> llmq50_60, LLMQ_400_60 \<mapsto> llmq400_60, LLMQ_400_85 \<mapsto> llmq400_85)"
| "consensus_llmqs DEVNET =
     Map.empty(LLMQ_50_60 \<mapsto> llmq50_60, LLMQ_400_60 \<mapsto> llmq400_60, LLMQ_400_85 \<mapsto> llmq400_85)"
| "consensus_llmqs REGTEST =
     Map.empty(LLMQ_10_60 \<mapsto> llmq10_60, LLMQ_50_60 \<mapsto> llmq50_60)"

section \<open>Coinbase special transaction (evo/cbtx.h, evo/cbtx.cpp)\<close>

type_synonym uint256 = "256 word"

text \<open>
  \<open>tx.nType\<close> is only ever compared with \<open>TRANSACTION_COINBASE\<close> in cbtx.cpp. The
  enumeration is declared in another header, so every other value is kept apart
  from it by a constructor of its own; \<open>TRANSACTION_QUORUM_COMMITMENT\<close> is the type
  of the special transaction that carries a final commitment.
\<close>

datatype TxType = TRANSACTION_COINBASE | TRANSACTION_QUORUM_COMMITMENT | TRANSACTION_OTHER nat

record CTransaction =
  nType :: TxType
  vExtraPayload :: "8 word list"

record CBlock =
  vtx :: "CTransaction list"

text \<open>
  \<open>CBlockIndex\<close>: the height (a C++ \<open>int\<close>) and the \<open>pprev\<close> pointer, null at the
  genesis block. A nullable \<open>const CBlockIndex*\<close> argument is a \<open>CBlockIndex option\<close>.
\<close>

datatype CBlockIndex = CBlockIndex (nHeight_index: "32 word") (pprev: "CBlockIndex option")

text \<open>\<open>class CCbTx\<close>: \<open>uint16_t nVersion\<close>, \<open>int32_t nHeight\<close>, \<open>uint256 merkleRootMNList\<close>.\<close>

record CCbTx =
  nVersion :: "16 word"
  nHeight :: "32 word"
  merkleRootMNList :: uint256

definition CURRENT_VERSION :: "16 word" where
  "CURRENT_VERSION = 1"

text \<open>
  \<open>return state.DoS(level, false, code, reason)\<close> makes the function return \<open>false\<close>
  and hands the ban score of the call, the reject code and the reason to the validation
  state. The rejection is the \<open>Inl\<close> value of the result, with the arguments of the
  call; \<open>return true\<close> is \<open>Inr ()\<close>.
\<close>

datatype RejectCode = REJECT_INVALID | REJECT_OTHER nat

record Rejection =
  dosLevel :: int
  chRejectCode :: RejectCode
  strRejectReason :: string

definition DoS :: "int \<Rightarrow> RejectCode \<Rightarrow> string \<Rightarrow> Rejection + unit" where
  "DoS level code reason =
     Inl \<lparr> dosLevel = level, chRejectCode = code, strRejectReason = reason \<rparr>"

text \<open>
  \<open>CheckCbTx\<close>. \<open>tx.IsCoinBase()\<close> and \<open>GetTxPayload(tx, cbTx)\<close> are defined in
  other files and are parameters: \<open>GetTxPayload tx\<close> is \<open>None\<close> where the C++
  returns \<open>false\<close> and the deserialised payload otherwise. \<open>pindexPrev->nHeight + 1\<close>
  is 32-bit two's complement addition; it wraps at the largest \<open>int\<close>, where C++ leaves
  the sum undefined.
\<close>

definition CheckCbTx ::
  "(CTransaction \<Rightarrow> bool) \<Rightarrow> (CTransaction \<Rightarrow> CCbTx option) \<Rightarrow>
   CTransaction \<Rightarrow> CBlockIndex option \<Rightarrow> Rejection + unit" where
  "CheckCbTx IsCoinBase GetTxPayload tx pindexPrev =
     (if nType tx \<noteq> TRANSACTION_COINBASE then
        DoS 100 REJECT_INVALID ''bad-cbtx-type''
      else if \<not> IsCoinBase tx then
        DoS 100 REJECT_INVALID ''bad-cbtx-invalid''
      else
        (case GetTxPayload tx of
           None \<Rightarrow> DoS 100 REJECT_INVALID ''bad-cbtx-payload''
         | Some cbTx \<Rightarrow>
             if nVersion cbTx = 0 \<or> nVersion cbTx > CURRENT_VERSION then
               DoS 100 REJECT_INVALID ''bad-cbtx-version''
             else
               (case pindexPrev of
                  None \<Rightarrow> Inr ()
                | Some prev \<Rightarrow>
                    if nHeight_index prev + 1 \<noteq> nHeight cbTx then
                      DoS 100 REJECT_INVALID ''bad-cbtx-height''
                    else Inr ())))"

text \<open>
  \<open>CalcCbTxMerkleRootMNList\<close>. The masternode list manager's
  \<open>BuildNewListFromBlock\<close> (\<open>None\<close> where it returns \<open>false\<close>), the conversion to a
  \<open>CSimplifiedMNList\<close> and its \<open>CalcMerkleRoot\<close> (the root and the \<open>mutated\<close> flag)
  are parameters. The result is the returned \<open>bool\<close> and the value of the reference
  argument \<open>merkleRootRet\<close> on return: it keeps the caller's value when the list
  cannot be built.
\<close>

definition CalcCbTxMerkleRootMNList ::
  "(CBlock \<Rightarrow> CBlockIndex option \<Rightarrow> 'mnl option) \<Rightarrow> ('mnl \<Rightarrow> 'sml) \<Rightarrow>
   ('sml \<Rightarrow> uint256 \<times> bool) \<Rightarrow>
   CBlock \<Rightarrow> CBlockIndex option \<Rightarrow> uint256 \<Rightarrow> bool \<times> uint256" where
  "CalcCbTxMerkleRootMNList BuildNewListFromBlock CSimplifiedMNList CalcMerkleRoot
       block pindexPrev merkleRootRet =
     (case BuildNewListFromBlock block pindexPrev of
        None \<Rightarrow> (False, merkleRootRet)
      | Some tmpMNList \<Rightarrow>
          (case CalcMerkleRoot (CSimplifiedMNList tmpMNList) of
             (root, mutated) \<Rightarrow> (\<not> mutated, root)))"

text \<open>
  \<open>CheckCbTxMerkleRootMNList\<close>. \<open>block.vtx[0]\<close> is read without a bounds check: on a
  block with no transaction the C++ is undefined, and the model returns \<open>None\<close>.
  \<open>uint256 calculatedMerkleRoot\<close> starts as the null hash 0.
\<close>

definition CheckCbTxMerkleRootMNList ::
  "(CTransaction \<Rightarrow> CCbTx option) \<Rightarrow>
   (CBlock \<Rightarrow> CBlockIndex option \<Rightarrow> 'mnl option) \<Rightarrow> ('mnl \<Rightarrow> 'sml) \<Rightarrow>
   ('sml \<Rightarrow> uint256 \<times> bool) \<Rightarrow>
   CBlock \<Rightarrow> CBlockIndex option \<Rightarrow> (Rejection + unit) option" where
  "CheckCbTxMerkleRootMNList GetTxPayload BuildNewListFromBlock CSimplifiedMNList CalcMerkleRoot
       block pindex =
     (case vtx block of
        [] \<Rightarrow> None
      | tx0 # _ \<Rightarrow> Some
          (if nType tx0 \<noteq> TRANSACTION_COINBASE then Inr ()
           else
             (case GetTxPayload tx0 of
                None \<Rightarrow> DoS 100 REJECT_INVALID ''bad-cbtx-payload''
              | Some cbTx \<Rightarrow>
                  (case pindex of
                     None \<Rightarrow> Inr ()
                   | Some pi \<Rightarrow>
                       (case CalcCbTxMerkleRootMNList BuildNewListFromBlock CSimplifiedMNList
                               CalcMerkleRoot block (pprev pi) 0 of
                          (ok, calculatedMerkleRoot) \<Rightarrow>
                            if \<not> ok then
                              DoS 100 REJECT_INVALID ''bad-cbtx-mnmerkleroot''
                            else if calculatedMerkleRoot \<noteq> merkleRootMNList cbTx then
                              DoS 100 REJECT_INVALID ''bad-cbtx-mnmerkleroot''
                            else Inr ())))))"

section \<open>Masternode payment votes (masternode-payments.h)\<close>

text \<open>
  \<open>class CMasternodePaymentVote\<close>: a \<open>COutPoint\<close> (transaction hash and output index),
  the block height (\<open>int\<close>), the payee script and the signature bytes.
\<close>

record CMasternodePaymentVote =
  masternodeOutpoint :: "uint256 \<times> 32 word"
  nBlockHeight :: "32 word"
  payee :: "8 word list"
  vchSig :: "8 word list"

text \<open>
  What \<open>READWRITE\<close> writes for each field type and the value of the stream flag
  \<open>SER_GETHASH\<close> are defined in another file (serialize.h) and are parameters.
\<close>

record Serializer =
  SER_GETHASH :: "32 word"
  ser_COutPoint :: "uint256 \<times> 32 word \<Rightarrow> 8 word list"
  ser_int :: "32 word \<Rightarrow> 8 word list"
  ser_CScriptBase :: "8 word list \<Rightarrow> 8 word list"
  ser_vector :: "8 word list \<Rightarrow> 8 word list"

text \<open>
  \<open>CMasternodePaymentVote::SerializationOp\<close>, writing to a stream of type \<open>s_type\<close>:
  the outpoint, the height and the payee, and the signature only if
  \<open>!(s.GetType() & SER_GETHASH)\<close>.
\<close>

definition SerializationOp :: "Serializer \<Rightarrow> 32 word \<Rightarrow> CMasternodePaymentVote \<Rightarrow> 8 word list" where
  "SerializationOp ser s_type vote =
     ser_COutPoint ser (masternodeOutpoint vote) @
     ser_int ser (nBlockHeight vote) @
     ser_CScriptBase ser (payee vote) @
     (if s_type AND SER_GETHASH ser = 0 then ser_vector ser (vchSig vote) else [])"

section \<open>Quorum window calculator, commitment validator and block processor\<close>

text \<open>
  llmq/quorums_blockprocessor.h declares \<open>CQuorumBlockProcessor\<close>: the two
  minable-commitment maps, the \<open>CEvoDB\<close> reference and the member functions. Their
  bodies (quorums_blockprocessor.cpp) and \<open>CFinalCommitment\<close> (quorums_commitment.h)
  are not among the source files; the definitions of this section that are marked so
  follow the specification, sections 3, 4 and 6.
\<close>

text \<open>
  Modelled from the spec: \<open>CFinalCommitment\<close> (quorums_commitment.h is missing), the
  Final Commitment of section 3: quorum type, quorum hash, the valid-member bit-set, the
  aggregated threshold public key, the aggregated signature and the signer bit-set.
\<close>

record CFinalCommitment =
  quorumType :: LLMQType
  quorumHash :: uint256
  validMembers :: "bool list"
  quorumPublicKey :: "8 word list"
  quorumSig :: "8 word list"
  signers :: "bool list"

text \<open>Modelled from the spec: the popcount of a bit-set (section 3), the number of bits set.\<close>

definition popcount_bits :: "bool list \<Rightarrow> int" where
  "popcount_bits bits = int (length (filter (\<lambda>b. b) bits))"

text \<open>Modelled from the spec: the error taxonomy of section 7.\<close>

datatype QcError =
  InvalidStructure | WrongWindow | Duplicate | TooManyCommitments
  | MissingRequiredCommitment | Stale

text \<open>
  Modelled from the spec: the collaborators the engine consumes (section 1 keeps them out
  of scope, as interfaces): the quorum parameter table of the selected network
  (\<open>Params().GetConsensus().llmqs\<close>), the hash of the active chain's block at a
  height, the hash that is a commitment's identity, the deserialiser of a commitment
  transaction's payload (\<open>None\<close> for a malformed payload), and the test that the
  mining window of the interval containing a height "has just closed", which the
  specification leaves open (section 9).
\<close>

record Externals =
  llmqs :: "LLMQType \<rightharpoonup> LLMQParams"
  blockHashAt :: "int \<Rightarrow> uint256"
  commitmentHash :: "CFinalCommitment \<Rightarrow> uint256"
  commitmentPayload :: "CTransaction \<Rightarrow> CFinalCommitment option"
  windowClosed :: "LLMQParams \<Rightarrow> int \<Rightarrow> bool"

text \<open>
  Modelled from the spec: the body of \<open>IsMiningPhase\<close> is missing. Section 4.1: true
  when \<open>height mod dkgInterval\<close> lies within
  \<open>[dkgMiningWindowStart, dkgMiningWindowEnd)\<close>. The result is \<open>None\<close> for a quorum
  type the network has not registered.
\<close>

definition IsMiningPhase :: "(LLMQType \<rightharpoonup> LLMQParams) \<Rightarrow> LLMQType \<Rightarrow> int \<Rightarrow> bool option" where
  "IsMiningPhase params llmqType height =
     (case params llmqType of
        None \<Rightarrow> None
      | Some p \<Rightarrow>
          Some (dkgMiningWindowStart p \<le> height mod dkgInterval p \<and>
                height mod dkgInterval p < dkgMiningWindowEnd p))"

text \<open>
  Modelled from the spec: the body of \<open>GetQuorumBlockHash\<close> is missing. Section 4.1:
  the hash of the ancestor block that begins the DKG interval containing \<open>height\<close>,
  \<open>height mod dkgInterval\<close> blocks back from \<open>height\<close>.
\<close>

definition GetQuorumBlockHash ::
  "(LLMQType \<rightharpoonup> LLMQParams) \<Rightarrow> (int \<Rightarrow> uint256) \<Rightarrow> LLMQType \<Rightarrow> int \<Rightarrow> uint256 option" where
  "GetQuorumBlockHash params hashAt llmqType height =
     (case params llmqType of
        None \<Rightarrow> None
      | Some p \<Rightarrow> Some (hashAt (height - height mod dkgInterval p)))"

text \<open>
  Modelled from the spec: the Mined Commitment Index of section 3 (kept in \<open>CEvoDB\<close>,
  which is missing): \<open>(quorumType, quorumHash) \<rightarrow> CommitmentIdentity\<close> plus
  \<open>CommitmentIdentity \<rightarrow> FinalCommitment\<close>. Section 4.3 writes a commitment "keyed by
  block's height/hash and quorum hash": the entry of a quorum holds, beside the identity,
  the height of the block that accepted the commitment.
\<close>

record MinedCommitmentIndex =
  minedCommitmentsByQuorum :: "LLMQType \<times> uint256 \<rightharpoonup> uint256 \<times> int"
  minedCommitments :: "uint256 \<rightharpoonup> CFinalCommitment"

text \<open>
  The state of \<open>CQuorumBlockProcessor\<close>: the mined index behind \<open>evoDb\<close> and the two
  maps of the minable commitment cache, \<open>minableCommitmentsByQuorum\<close> and
  \<open>minableCommitments\<close>, as the header declares them.
\<close>

record CQuorumBlockProcessor =
  evoDb :: MinedCommitmentIndex
  minableCommitmentsByQuorum :: "LLMQType \<times> uint256 \<rightharpoonup> uint256"
  minableCommitments :: "uint256 \<rightharpoonup> CFinalCommitment"

text \<open>
  Modelled from the spec: the body of \<open>IsCommitmentRequired\<close> is missing. Section 4.1:
  the mining window of the current interval has just closed and no accepted commitment
  exists yet for that interval.
\<close>

definition IsCommitmentRequired ::
  "Externals \<Rightarrow> MinedCommitmentIndex \<Rightarrow> LLMQType \<Rightarrow> int \<Rightarrow> bool" where
  "IsCommitmentRequired ext idx llmqType height =
     (case llmqs ext llmqType of
        None \<Rightarrow> False
      | Some p \<Rightarrow>
          windowClosed ext p height \<and>
          minedCommitmentsByQuorum idx
            (llmqType, blockHashAt ext (height - height mod dkgInterval p)) = None)"

text \<open>
  Modelled from the spec: the Commitment Validator of section 4.2 (the validating part of
  \<open>ProcessCommitment\<close>, whose body is missing), with the checks in the order of the
  contract: \<open>InvalidStructure\<close> for an unknown quorum type, for bit-sets whose length is
  not the quorum's size, for fewer signers than the threshold or fewer valid members
  than \<open>minSize\<close>; \<open>WrongWindow\<close> for a quorum hash that is not
  \<open>GetQuorumBlockHash(quorumType, height)\<close> or a height outside the mining phase;
  \<open>Duplicate\<close> when the pair \<open>(quorumType, quorumHash)\<close> is already accepted. On
  success the commitment is returned unchanged.
\<close>

definition ValidateCommitment ::
  "Externals \<Rightarrow> MinedCommitmentIndex \<Rightarrow> CFinalCommitment \<Rightarrow> int \<Rightarrow> QcError + CFinalCommitment" where
  "ValidateCommitment ext idx qc height =
     (case llmqs ext (quorumType qc) of
        None \<Rightarrow> Inl InvalidStructure
      | Some p \<Rightarrow>
          if int (length (signers qc)) \<noteq> size_llmq p \<or>
             int (length (validMembers qc)) \<noteq> size_llmq p then Inl InvalidStructure
          else if popcount_bits (signers qc) < threshold p \<or>
                  popcount_bits (validMembers qc) < minSize p then Inl InvalidStructure
          else if GetQuorumBlockHash (llmqs ext) (blockHashAt ext) (quorumType qc) height
                    \<noteq> Some (quorumHash qc) \<or>
                  IsMiningPhase (llmqs ext) (quorumType qc) height \<noteq> Some True
               then Inl WrongWindow
          else if minedCommitmentsByQuorum idx (quorumType qc, quorumHash qc) \<noteq> None
               then Inl Duplicate
          else Inr qc)"

text \<open>
  Modelled from the spec: \<open>ProcessCommitment\<close> (body missing), the step of section 4.3
  for one commitment: run the validator; on success write the commitment into the Mined
  Commitment Index, under its quorum \<open>(quorumType, quorumHash)\<close>, with the height of
  the block, and under its identity, as section 3 lays the index out, and promote it out
  of the minable commitment cache if it is there.
\<close>

definition ProcessCommitment ::
  "Externals \<Rightarrow> CQuorumBlockProcessor \<Rightarrow> CFinalCommitment \<Rightarrow> int \<Rightarrow>
   QcError + CQuorumBlockProcessor" where
  "ProcessCommitment ext s qc height =
     (case ValidateCommitment ext (evoDb s) qc height of
        Inl e \<Rightarrow> Inl e
      | Inr qc' \<Rightarrow>
          (let h = commitmentHash ext qc';
               k = (quorumType qc', quorumHash qc')
           in Inr \<lparr> evoDb =
                      \<lparr> minedCommitmentsByQuorum =
                          (minedCommitmentsByQuorum (evoDb s))(k \<mapsto> (h, height)),
                        minedCommitments = (minedCommitments (evoDb s))(h \<mapsto> qc') \<rparr>,
                    minableCommitmentsByQuorum =
                      (if minableCommitmentsByQuorum s k = Some h
                       then (minableCommitmentsByQuorum s)(k := None)
                       else minableCommitmentsByQuorum s),
                    minableCommitments = (minableCommitments s)(h := None) \<rparr>))"

text \<open>
  Modelled from the spec: \<open>GetCommitmentsFromBlock\<close> (body missing) extracts every
  special commitment transaction of the block, in block order; each is the deserialised
  payload, or \<open>None\<close> when the payload is malformed.
\<close>

definition GetCommitmentsFromBlock :: "Externals \<Rightarrow> CBlock \<Rightarrow> CFinalCommitment option list" where
  "GetCommitmentsFromBlock ext block =
     map (commitmentPayload ext)
       (filter (\<lambda>tx. nType tx = TRANSACTION_QUORUM_COMMITMENT) (vtx block))"

text \<open>Modelled from the spec: the commitments among the extracted payloads (section 6).\<close>

fun wellFormed :: "CFinalCommitment option list \<Rightarrow> CFinalCommitment list" where
  "wellFormed [] = []"
| "wellFormed (None # ps) = wellFormed ps"
| "wellFormed (Some qc # ps) = qc # wellFormed ps"

text \<open>
  Modelled from the spec: every extracted commitment in turn (section 4.3). A malformed
  payload is the validator failure \<open>InvalidStructure\<close> (section 6); the first failure
  rejects the block.
\<close>

fun ProcessCommitments ::
  "Externals \<Rightarrow> CQuorumBlockProcessor \<Rightarrow> CFinalCommitment option list \<Rightarrow> int \<Rightarrow>
   QcError + CQuorumBlockProcessor" where
  "ProcessCommitments ext s [] height = Inr s"
| "ProcessCommitments ext s (None # ps) height = Inl InvalidStructure"
| "ProcessCommitments ext s (Some qc # ps) height =
     (case ProcessCommitment ext s qc height of
        Inl e \<Rightarrow> Inl e
      | Inr s' \<Rightarrow> ProcessCommitments ext s' ps height)"

text \<open>
  Modelled from the spec: whether some configured quorum type requires a commitment at the
  height and the block carries none for the required interval (section 4.3).
\<close>

definition missingRequired ::
  "Externals \<Rightarrow> MinedCommitmentIndex \<Rightarrow> CFinalCommitment list \<Rightarrow> int \<Rightarrow> bool" where
  "missingRequired ext idx qcs height =
     list_ex (\<lambda>t. IsCommitmentRequired ext idx t height \<and>
                \<not> list_ex (\<lambda>qc. quorumType qc = t \<and>
                     Some (quorumHash qc) =
                       GetQuorumBlockHash (llmqs ext) (blockHashAt ext) t height) qcs)
       [LLMQ_50_60, LLMQ_400_60, LLMQ_400_85, LLMQ_10_60]"

text \<open>
  Modelled from the spec: \<open>ProcessBlock(block, prevBlockIndex)\<close> (body missing),
  section 4.3. The block fails with \<open>TooManyCommitments\<close> if more than one commitment
  exists for the same quorum type; every commitment is validated against
  \<open>prevBlockIndex.height + 1\<close> and written on success; the block fails with
  \<open>MissingRequiredCommitment\<close> if a required commitment is absent. A rejected block
  leaves the state as it was: the result is the error alone.
\<close>

definition ProcessBlock ::
  "Externals \<Rightarrow> CQuorumBlockProcessor \<Rightarrow> CBlock \<Rightarrow> CBlockIndex \<Rightarrow>
   QcError + CQuorumBlockProcessor" where
  "ProcessBlock ext s block prevBlockIndex =
     (let height = sint (nHeight_index prevBlockIndex) + 1;
          payloads = GetCommitmentsFromBlock ext block
      in if \<not> distinct (map quorumType (wellFormed payloads)) then Inl TooManyCommitments
         else
           (case ProcessCommitments ext s payloads height of
              Inl e \<Rightarrow> Inl e
            | Inr s' \<Rightarrow>
                if missingRequired ext (evoDb s) (wellFormed payloads) height
                then Inl MissingRequiredCommitment
                else Inr s'))"



section \<open>Conditions on the mined commitment index\<close>

text \<open>
  Modelled from the spec: the identity of a commitment is the hash of its contents
  (section 3). The index is consistent when every stored commitment is stored under its
  own identity and its quorum's entry names that identity.
\<close>

definition index_consistent :: "Externals \<Rightarrow> MinedCommitmentIndex \<Rightarrow> bool" where
  "index_consistent ext idx \<longleftrightarrow>
     (\<forall>h qc. minedCommitments idx h = Some qc \<longrightarrow>
        commitmentHash ext qc = h \<and>
        (\<exists>minedHeight. minedCommitmentsByQuorum idx (quorumType qc, quorumHash qc) =
           Some (h, minedHeight)))"

text \<open>
  The identity hash has no collision among the commitments involved: those of a block and
  those the index stores.
\<close>

definition collision_free :: "Externals \<Rightarrow> CFinalCommitment list \<Rightarrow> MinedCommitmentIndex \<Rightarrow> bool" where
  "collision_free ext qcs idx \<longleftrightarrow>
     inj_on (commitmentHash ext) (set qcs \<union> ran (minedCommitments idx))"

text \<open>
  No commitment of the list has its identity in the index while its quorum has no entry
  there. Every consistent index has the property when the identity hash does not collide.
\<close>

definition identities_unused :: "Externals \<Rightarrow> CFinalCommitment list \<Rightarrow> MinedCommitmentIndex \<Rightarrow> bool" where
  "identities_unused ext qcs idx \<longleftrightarrow>
     list_all (\<lambda>qc. minedCommitmentsByQuorum idx (quorumType qc, quorumHash qc) = None \<longrightarrow>
                     minedCommitments idx (commitmentHash ext qc) = None) qcs"



section \<open>Concrete inputs\<close>

text \<open>
  A regtest node at height 11 of a chain whose blocks all have hash 7, with nothing mined
  yet, two well-formed commitments of the test quorum \<open>LLMQ_10_60\<close> and one of the
  quorum \<open>LLMQ_50_60\<close>, all for the interval that block 0 starts. A commitment
  transaction's payload is one byte that names the commitment it carries. The identity
  hash of the node tells \<open>qcA\<close> from the other two, which it does not tell apart.
\<close>

definition qcA :: CFinalCommitment where
  "qcA = \<lparr> quorumType = LLMQ_10_60, quorumHash = 7,
           validMembers = replicate 10 True,
           quorumPublicKey = [1], quorumSig = [1],
           signers = replicate 10 True \<rparr>"

definition qcB :: CFinalCommitment where
  "qcB = \<lparr> quorumType = LLMQ_10_60, quorumHash = 7,
           validMembers = replicate 10 True,
           quorumPublicKey = [2], quorumSig = [2],
           signers = replicate 6 True @ replicate 4 False \<rparr>"

definition qcC :: CFinalCommitment where
  "qcC = \<lparr> quorumType = LLMQ_50_60, quorumHash = 7,
           validMembers = replicate 50 True,
           quorumPublicKey = [3], quorumSig = [3],
           signers = replicate 50 True \<rparr>"

definition regtestExt :: Externals where
  "regtestExt = \<lparr> llmqs = consensus_llmqs REGTEST, blockHashAt = (\<lambda>_. 7),
       commitmentHash = (\<lambda>qc. if quorumSig qc = [1] then 1 else 2),
       commitmentPayload = (\<lambda>tx. if vExtraPayload tx = [1] then Some qcA
                                  else if vExtraPayload tx = [2] then Some qcB
                                  else if vExtraPayload tx = [3] then Some qcC else None),
       windowClosed = (\<lambda>_ _. False) \<rparr>"

definition emptyProcessor :: CQuorumBlockProcessor where
  "emptyProcessor =
     \<lparr> evoDb = \<lparr> minedCommitmentsByQuorum = Map.empty, minedCommitments = Map.empty \<rparr>,
       minableCommitmentsByQuorum = Map.empty, minableCommitments = Map.empty \<rparr>"

definition qcTx :: "8 word list \<Rightarrow> CTransaction" where
  "qcTx payload = \<lparr> nType = TRANSACTION_QUORUM_COMMITMENT, vExtraPayload = payload \<rparr>"

definition coinbaseTx :: CTransaction where
  "coinbaseTx = \<lparr> nType = TRANSACTION_COINBASE, vExtraPayload = [] \<rparr>"











text \<open>A block with two commitments of the same quorum type.\<close>

definition blockAB :: CBlock where
  "blockAB = \<lparr> vtx = [coinbaseTx, qcTx [1], qcTx [2]] \<rparr>"

text \<open>
  A commitment of the quorum \<open>LLMQ_50_60\<close> with 25 signers and 40 valid members, and a
  main-network node.
\<close>

definition qc25 :: CFinalCommitment where
  "qc25 = \<lparr> quorumType = LLMQ_50_60, quorumHash = 0,
            validMembers = replicate 40 True @ replicate 10 False,
            quorumPublicKey = [], quorumSig = [],
            signers = replicate 25 True @ replicate 25 False \<rparr>"

definition mainExt :: Externals where
  "mainExt = \<lparr> llmqs = consensus_llmqs MAIN, blockHashAt = (\<lambda>_. 0),
       commitmentHash = (\<lambda>_. 0), commitmentPayload = (\<lambda>_. None),
       windowClosed = (\<lambda>_ _. False) \<rparr>"

text \<open>
  A block whose coinbase payload declares the masternode-list root 7, and a masternode
  list manager whose list has the merkle root \<open>root\<close>, mutated or not.
\<close>

definition cbTx7 :: CCbTx where
  "cbTx7 = \<lparr> nVersion = 1, nHeight = 1, merkleRootMNList = 7 \<rparr>"

definition coinbaseBlock :: CBlock where
  "coinbaseBlock = \<lparr> vtx = [coinbaseTx] \<rparr>"

definition payload7 :: "CTransaction \<Rightarrow> CCbTx option" where
  "payload7 tx = (if nType tx = TRANSACTION_COINBASE then Some cbTx7 else None)"

definition buildList :: "CBlock \<Rightarrow> CBlockIndex option \<Rightarrow> unit option" where
  "buildList block pindexPrev = Some ()"

definition toSml :: "unit \<Rightarrow> unit" where
  "toSml tmpMNList = tmpMNList"

definition listRoot :: "uint256 \<Rightarrow> bool \<Rightarrow> unit \<Rightarrow> uint256 \<times> bool" where
  "listRoot root mutated sml = (root, mutated)"

text \<open>
  Two votes that differ in the signature alone, and serialisers that write the payee and
  the signature as they are and nothing for the other fields.
\<close>

definition voteUnsigned :: CMasternodePaymentVote where
  "voteUnsigned = \<lparr> masternodeOutpoint = (1, 0), nBlockHeight = 100, payee = [1, 2], vchSig = [] \<rparr>"

definition voteSigned :: CMasternodePaymentVote where
  "voteSigned = \<lparr> masternodeOutpoint = (1, 0), nBlockHeight = 100, payee = [1, 2],
                  vchSig = [9, 9, 9] \<rparr>"

definition lengthSerializer :: Serializer where
  "lengthSerializer = \<lparr> SER_GETHASH = 4,
     ser_COutPoint = (\<lambda>_. []), ser_int = (\<lambda>_. []),
     ser_CScriptBase = (\<lambda>bs. bs), ser_vector = (\<lambda>bs. bs) \<rparr>"

chapter \<open>Properties\<close>

section \<open>Properties of the parameter table\<close>

lemma registered_cases:
  assumes "consensus_llmqs net t = Some p"
  shows "p = llmq10_60 \<or> p = llmq50_60 \<or> p = llmq400_60 \<or> p = llmq400_85"
  using assms by (cases net; cases t) (simp_all)

text \<open>
  C1, as stated: every registered record has \<open>minSize \<le> threshold \<le> size\<close>. The record
  \<open>llmq50_60\<close>, registered on the main network, has \<open>minSize = 40\<close> and
  \<open>threshold = 30\<close>, so the statement is false.
\<close>

theorem C1_minSize_le_threshold_counterexample:
  "consensus_llmqs MAIN LLMQ_50_60 = Some llmq50_60 \<and>
   \<not> (minSize llmq50_60 \<le> threshold llmq50_60 \<and> threshold llmq50_60 \<le> size_llmq llmq50_60)"
  by (simp add: llmq50_60_def)

text \<open>
  C1, amended: every quorum parameters record registered on any network satisfies
  \<open>threshold \<le> minSize \<le> size\<close>.
\<close>

theorem C1_threshold_le_minSize_le_size:
  assumes "consensus_llmqs net t = Some p"
  shows "threshold p \<le> minSize p \<and> minSize p \<le> size_llmq p"
  using registered_cases [OF assms]
  by (auto simp: llmq10_60_def llmq50_60_def llmq400_60_def llmq400_85_def)

theorem C1_threshold_le_minSize_le_size_witness:
  "consensus_llmqs REGTEST LLMQ_10_60 = Some llmq10_60 \<and>
   threshold llmq10_60 \<le> minSize llmq10_60 \<and> minSize llmq10_60 \<le> size_llmq llmq10_60"
proof -
  have h: "consensus_llmqs REGTEST LLMQ_10_60 = Some llmq10_60" by simp
  show ?thesis using h C1_threshold_le_minSize_le_size [OF h] by simp
qed

text \<open>
  C6: every network registers the quorum type \<open>LLMQ_50_60\<close>, and its parameters are
  size 50, minSize 40, threshold 30, dkgInterval 24, dkgPhaseBlocks 2,
  dkgMiningWindowStart 10 and dkgMiningWindowEnd 18.
\<close>

theorem C6_llmq50_60_registered:
  "(\<exists>p. consensus_llmqs net LLMQ_50_60 = Some p \<and>
        size_llmq p = 50 \<and> minSize p = 40 \<and> threshold p = 30 \<and>
        dkgInterval p = 24 \<and> dkgPhaseBlocks p = 2 \<and>
        dkgMiningWindowStart p = 10 \<and> dkgMiningWindowEnd p = 18)"
  by (cases net) (simp_all add: llmq50_60_def)

text \<open>
  C7: every registered record has \<open>dkgMiningWindowStart < dkgMiningWindowEnd\<close> and
  \<open>dkgMiningWindowEnd < dkgInterval\<close>, so the offset \<open>dkgMiningWindowStart\<close> is an
  offset of the interval (between 0 and \<open>dkgInterval\<close>) that lies in the window
  \<open>[dkgMiningWindowStart, dkgMiningWindowEnd)\<close>: the window is not empty.
\<close>

theorem C7_mining_window_in_interval:
  assumes "consensus_llmqs net t = Some p"
  shows "dkgMiningWindowStart p < dkgMiningWindowEnd p \<and>
         dkgMiningWindowEnd p < dkgInterval p \<and>
         (\<exists>off. 0 \<le> off \<and> off < dkgInterval p \<and>
                dkgMiningWindowStart p \<le> off \<and> off < dkgMiningWindowEnd p)"
proof -
  have a: "0 \<le> dkgMiningWindowStart p \<and> dkgMiningWindowStart p < dkgMiningWindowEnd p \<and>
           dkgMiningWindowEnd p < dkgInterval p"
    using registered_cases [OF assms]
    by (auto simp: llmq10_60_def llmq50_60_def llmq400_60_def llmq400_85_def)
  then have "0 \<le> dkgMiningWindowStart p \<and> dkgMiningWindowStart p < dkgInterval p \<and>
             dkgMiningWindowStart p \<le> dkgMiningWindowStart p \<and>
             dkgMiningWindowStart p < dkgMiningWindowEnd p"
    by simp
  then have "\<exists>off. 0 \<le> off \<and> off < dkgInterval p \<and>
                dkgMiningWindowStart p \<le> off \<and> off < dkgMiningWindowEnd p"
    by (rule exI)
  with a show ?thesis by simp
qed

theorem C7_mining_window_in_interval_witness:
  "consensus_llmqs MAIN LLMQ_400_85 = Some llmq400_85 \<and>
   dkgMiningWindowStart llmq400_85 < dkgMiningWindowEnd llmq400_85 \<and>
   dkgMiningWindowEnd llmq400_85 < dkgInterval llmq400_85"
proof -
  have h: "consensus_llmqs MAIN LLMQ_400_85 = Some llmq400_85" by simp
  show ?thesis using h C7_mining_window_in_interval [OF h] by simp
qed

section \<open>Properties of the quorum window calculator\<close>

lemma IsMiningPhase_registered:
  assumes "params t = Some p"
  shows "IsMiningPhase params t h =
           Some (dkgMiningWindowStart p \<le> h mod dkgInterval p \<and>
                 h mod dkgInterval p < dkgMiningWindowEnd p)"
  using assms by (simp add: IsMiningPhase_def)

lemma llmq50_60_everywhere: "consensus_llmqs net LLMQ_50_60 = Some llmq50_60"
  by (cases net) simp_all

text \<open>
  C4: for a registered quorum type and any height, \<open>IsMiningPhase\<close> is true if and only
  if \<open>height mod dkgInterval\<close> lies in
  \<open>[dkgMiningWindowStart, dkgMiningWindowEnd)\<close>. With the parameters of \<open>llmq50_60\<close>,
  on every network, a height at offset 5 of its interval is outside the mining phase and
  a height at offset 12 is inside it.
\<close>

theorem C4_IsMiningPhase_window:
  "(params t = Some p \<longrightarrow>
      (IsMiningPhase params t h = Some True \<longleftrightarrow>
         dkgMiningWindowStart p \<le> h mod dkgInterval p \<and>
         h mod dkgInterval p < dkgMiningWindowEnd p)) \<and>
   (h mod 24 = 5 \<longrightarrow> IsMiningPhase (consensus_llmqs net) LLMQ_50_60 h = Some False) \<and>
   (h mod 24 = 12 \<longrightarrow> IsMiningPhase (consensus_llmqs net) LLMQ_50_60 h = Some True)"
proof -
  have a: "params t = Some p \<longrightarrow>
      (IsMiningPhase params t h = Some True \<longleftrightarrow>
         dkgMiningWindowStart p \<le> h mod dkgInterval p \<and>
         h mod dkgInterval p < dkgMiningWindowEnd p)"
    by (simp add: IsMiningPhase_def)
  have b: "h mod 24 = 5 \<longrightarrow> IsMiningPhase (consensus_llmqs net) LLMQ_50_60 h = Some False"
    using llmq50_60_everywhere [of net]
      IsMiningPhase_registered [of "consensus_llmqs net" LLMQ_50_60 llmq50_60 h]
    by (simp add: llmq50_60_def)
  have c: "h mod 24 = 12 \<longrightarrow> IsMiningPhase (consensus_llmqs net) LLMQ_50_60 h = Some True"
    using llmq50_60_everywhere [of net]
      IsMiningPhase_registered [of "consensus_llmqs net" LLMQ_50_60 llmq50_60 h]
    by (simp add: llmq50_60_def)
  from a b c show ?thesis by blast
qed

theorem C4_IsMiningPhase_window_witness:
  "consensus_llmqs MAIN LLMQ_400_60 = Some llmq400_60 \<and>
   IsMiningPhase (consensus_llmqs MAIN) LLMQ_400_60 (288 * 7 + 20) = Some True \<and>
   IsMiningPhase (consensus_llmqs MAIN) LLMQ_400_60 (288 * 7 + 28) \<noteq> Some True \<and>
   IsMiningPhase (consensus_llmqs MAIN) LLMQ_50_60 (24 * 1000 + 5) = Some False \<and>
   IsMiningPhase (consensus_llmqs MAIN) LLMQ_50_60 (24 * 1000 + 12) = Some True"
  using C4_IsMiningPhase_window [of "consensus_llmqs MAIN" LLMQ_400_60 llmq400_60 "288 * 7 + 20"]
        C4_IsMiningPhase_window [of "consensus_llmqs MAIN" LLMQ_400_60 llmq400_60 "288 * 7 + 28"]
        C4_IsMiningPhase_window [of _ _ _ "24 * 1000 + 5" MAIN]
        C4_IsMiningPhase_window [of _ _ _ "24 * 1000 + 12" MAIN]
  by (simp add: llmq400_60_def)

section \<open>Properties of the commitment validator\<close>

lemma popcount_bits_replicate:
  "popcount_bits (replicate m True @ replicate n False) = int m"
  by (simp add: popcount_bits_def)

lemma popcount_bits_replicate_True:
  "popcount_bits (replicate m True) = int m"
  by (simp add: popcount_bits_def)

lemma ValidateCommitment_Inr:
  assumes "ValidateCommitment ext idx qc height = Inr qc'"
  shows "qc' = qc \<and> minedCommitmentsByQuorum idx (quorumType qc, quorumHash qc) = None"
  using assms
  by (cases "minedCommitmentsByQuorum idx (quorumType qc, quorumHash qc)")
     (auto simp: ValidateCommitment_def split: option.splits if_splits)

lemma ValidateCommitment_cong:
  assumes "minedCommitmentsByQuorum idx1 = minedCommitmentsByQuorum idx2"
  shows "ValidateCommitment ext idx1 qc height = ValidateCommitment ext idx2 qc height"
  unfolding ValidateCommitment_def assms ..

lemma ProcessCommitment_Inr:
  assumes "ProcessCommitment ext s qc height = Inr s'"
  shows "minedCommitmentsByQuorum (evoDb s) (quorumType qc, quorumHash qc) = None \<and>
         minedCommitmentsByQuorum (evoDb s') =
           (minedCommitmentsByQuorum (evoDb s))
             ((quorumType qc, quorumHash qc) \<mapsto> (commitmentHash ext qc, height)) \<and>
         minedCommitments (evoDb s') =
           (minedCommitments (evoDb s))(commitmentHash ext qc \<mapsto> qc)"
proof (cases "ValidateCommitment ext (evoDb s) qc height")
  case (Inl e)
  with assms show ?thesis by (simp add: ProcessCommitment_def)
next
  case (Inr qc')
  from ValidateCommitment_Inr [OF Inr] have q: "qc' = qc"
    and f: "minedCommitmentsByQuorum (evoDb s) (quorumType qc, quorumHash qc) = None"
    by simp_all
  from assms Inr q have
    "s' = \<lparr> evoDb =
              \<lparr> minedCommitmentsByQuorum =
                  (minedCommitmentsByQuorum (evoDb s))
                    ((quorumType qc, quorumHash qc) \<mapsto> (commitmentHash ext qc, height)),
                minedCommitments = (minedCommitments (evoDb s))(commitmentHash ext qc \<mapsto> qc) \<rparr>,
            minableCommitmentsByQuorum =
              (if minableCommitmentsByQuorum s (quorumType qc, quorumHash qc) = Some (commitmentHash ext qc)
               then (minableCommitmentsByQuorum s)((quorumType qc, quorumHash qc) := None)
               else minableCommitmentsByQuorum s),
            minableCommitments = (minableCommitments s)(commitmentHash ext qc := None) \<rparr>"
    by (simp add: ProcessCommitment_def Let_def)
  then show ?thesis using f by simp
qed


text \<open>
  C5: a commitment of a registered quorum type whose signer bit-set has fewer bits set
  than the quorum's threshold is rejected with \<open>InvalidStructure\<close>, by the validator and
  so by \<open>ProcessCommitment\<close>, whatever its valid-member count is. The example is a
  commitment with 25 signers and 40 valid members, for threshold 30 and \<open>minSize\<close> 40.
\<close>

theorem C5_too_few_signers_InvalidStructure:
  assumes "llmqs ext (quorumType qc) = Some p"
      and "popcount_bits (signers qc) < threshold p"
  shows "ValidateCommitment ext idx qc height = Inl InvalidStructure \<and>
         ProcessCommitment ext s qc height = Inl InvalidStructure"
  using assms by (simp add: ValidateCommitment_def ProcessCommitment_def)

theorem C5_too_few_signers_InvalidStructure_witness:
  "llmqs mainExt (quorumType qc25) = Some llmq50_60 \<and>
   popcount_bits (signers qc25) = 25 \<and> threshold llmq50_60 = 30 \<and>
   popcount_bits (validMembers qc25) = 40 \<and> minSize llmq50_60 = 40 \<and>
   ValidateCommitment mainExt (evoDb emptyProcessor) qc25 12 = Inl InvalidStructure \<and>
   ProcessCommitment mainExt emptyProcessor qc25 12 = Inl InvalidStructure"
proof -
  have a: "llmqs mainExt (quorumType qc25) = Some llmq50_60"
    by (simp add: qc25_def mainExt_def)
  have b: "popcount_bits (signers qc25) = 25"
    by (simp add: qc25_def popcount_bits_replicate)
  have c: "popcount_bits (validMembers qc25) = 40"
    by (simp add: qc25_def popcount_bits_replicate)
  have d: "threshold llmq50_60 = 30 \<and> minSize llmq50_60 = 40"
    by (simp add: llmq50_60_def)
  have e: "popcount_bits (signers qc25) < threshold llmq50_60"
    using b d by simp
  show ?thesis
    using a b c d
      C5_too_few_signers_InvalidStructure [OF a e, of "evoDb emptyProcessor" 12 emptyProcessor]
    by simp
qed

section \<open>Properties of the block processor\<close>

lemma wellFormed_append: "wellFormed (ps @ qs) = wellFormed ps @ wellFormed qs"
  by (induction ps rule: wellFormed.induct) simp_all

lemma two_commitments_not_distinct:
  assumes "vtx block = xs @ a # ys @ b # zs"
      and "nType a = TRANSACTION_QUORUM_COMMITMENT"
      and "nType b = TRANSACTION_QUORUM_COMMITMENT"
      and "commitmentPayload ext a = Some qa"
      and "commitmentPayload ext b = Some qb"
      and "quorumType qa = quorumType qb"
  shows "\<not> distinct (map quorumType (wellFormed (GetCommitmentsFromBlock ext block)))"
proof -
  let ?E = "\<lambda>txs. wellFormed (map (commitmentPayload ext)
                (filter (\<lambda>tx. nType tx = TRANSACTION_QUORUM_COMMITMENT) txs))"
  have "wellFormed (GetCommitmentsFromBlock ext block) = ?E xs @ qa # ?E ys @ qb # ?E zs"
    using assms(1-5) by (simp add: GetCommitmentsFromBlock_def wellFormed_append)
  then show ?thesis
    using assms(6) by simp
qed

lemma qcA_valid: "ValidateCommitment regtestExt (evoDb emptyProcessor) qcA 12 = Inr qcA"
  by (simp add: ValidateCommitment_def regtestExt_def emptyProcessor_def qcA_def
        popcount_bits_replicate_True llmq10_60_def GetQuorumBlockHash_def IsMiningPhase_def)

lemma qcB_valid: "ValidateCommitment regtestExt (evoDb emptyProcessor) qcB 12 = Inr qcB"
  by (simp add: ValidateCommitment_def regtestExt_def emptyProcessor_def qcB_def
        popcount_bits_replicate popcount_bits_replicate_True llmq10_60_def
        GetQuorumBlockHash_def IsMiningPhase_def)

lemma height12: "sint (nHeight_index (CBlockIndex 11 None)) + 1 = 12"
  by simp


text \<open>
  C3: a block that carries two commitment transactions whose payloads are commitments of
  the same quorum type is rejected by \<open>ProcessBlock\<close> with \<open>TooManyCommitments\<close>,
  whatever else the block holds and whether or not the two commitments pass the
  validator. In the example both commitments pass the validator on their own.
\<close>

theorem C3_two_commitments_same_type_rejected:
  assumes "vtx block = xs @ a # ys @ b # zs"
      and "nType a = TRANSACTION_QUORUM_COMMITMENT"
      and "nType b = TRANSACTION_QUORUM_COMMITMENT"
      and "commitmentPayload ext a = Some qa"
      and "commitmentPayload ext b = Some qb"
      and "quorumType qa = quorumType qb"
  shows "ProcessBlock ext s block prevBlockIndex = Inl TooManyCommitments"
  using two_commitments_not_distinct [OF assms]
  by (simp add: ProcessBlock_def Let_def)

theorem C3_two_commitments_same_type_rejected_witness:
  "ValidateCommitment regtestExt (evoDb emptyProcessor) qcA 12 = Inr qcA \<and>
   ValidateCommitment regtestExt (evoDb emptyProcessor) qcB 12 = Inr qcB \<and>
   quorumType qcA = quorumType qcB \<and>
   sint (nHeight_index (CBlockIndex 11 None)) + 1 = 12 \<and>
   ProcessBlock regtestExt emptyProcessor blockAB (CBlockIndex 11 None) = Inl TooManyCommitments"
proof -
  have v: "vtx blockAB = [coinbaseTx] @ qcTx [1] # [] @ qcTx [2] # []"
    by (simp add: blockAB_def)
  have ta: "nType (qcTx [1]) = TRANSACTION_QUORUM_COMMITMENT"
    and tb: "nType (qcTx [2]) = TRANSACTION_QUORUM_COMMITMENT"
    by (simp_all add: qcTx_def)
  have pa: "commitmentPayload regtestExt (qcTx [1]) = Some qcA"
    and pb: "commitmentPayload regtestExt (qcTx [2]) = Some qcB"
    by (simp_all add: qcTx_def regtestExt_def)
  have ty: "quorumType qcA = quorumType qcB"
    by (simp add: qcA_def qcB_def)
  show ?thesis
    using qcA_valid qcB_valid ty height12
      C3_two_commitments_same_type_rejected [OF v ta tb pa pb ty,
        of emptyProcessor "CBlockIndex 11 None"]
    by simp
qed

subsection \<open>Connecting and disconnecting a block\<close>










lemma ProcessBlock_Inr:
  assumes "ProcessBlock ext s block prevBlockIndex = Inr s'"
  shows "ProcessCommitments ext s (GetCommitmentsFromBlock ext block)
           (sint (nHeight_index prevBlockIndex) + 1) = Inr s' \<and>
         distinct (map quorumType (wellFormed (GetCommitmentsFromBlock ext block))) \<and>
         \<not> missingRequired ext (evoDb s) (wellFormed (GetCommitmentsFromBlock ext block))
             (sint (nHeight_index prevBlockIndex) + 1)"
  using assms
  by (simp add: ProcessBlock_def Let_def split: if_splits sum.splits)

subsection \<open>Consistent indexes\<close>

lemma index_consistent_empty:
  "index_consistent ext \<lparr> minedCommitmentsByQuorum = Map.empty, minedCommitments = Map.empty \<rparr>"
  by (simp add: index_consistent_def)

text \<open>
  In a consistent index whose identity hash does not collide with the commitments of a
  list, no commitment of the list has its identity stored while its quorum has no entry.
\<close>

lemma consistent_identities_unused:
  assumes wf: "index_consistent ext idx"
      and cf: "collision_free ext qcs idx"
  shows "identities_unused ext qcs idx"
  unfolding identities_unused_def list_all_iff
proof (intro ballI impI)
  fix qc
  assume qc: "qc \<in> set qcs"
    and fr: "minedCommitmentsByQuorum idx (quorumType qc, quorumHash qc) = None"
  show "minedCommitments idx (commitmentHash ext qc) = None"
  proof (rule ccontr)
    assume "minedCommitments idx (commitmentHash ext qc) \<noteq> None"
    then obtain qc' where st: "minedCommitments idx (commitmentHash ext qc) = Some qc'"
      by blast
    with wf have h: "commitmentHash ext qc' = commitmentHash ext qc"
      and q: "\<exists>m. minedCommitmentsByQuorum idx (quorumType qc', quorumHash qc') =
                  Some (commitmentHash ext qc, m)"
      by (simp_all add: index_consistent_def)
    from st have "qc' \<in> ran (minedCommitments idx)"
      by (auto simp: ran_def)
    with cf qc h have "qc' = qc"
      by (auto simp: collision_free_def inj_on_def)
    with q fr show False by simp
  qed
qed

text \<open>
  The index with nothing mined is consistent, and connecting a block keeps the index
  consistent as long as the identity hash does not collide.
\<close>

lemma ProcessCommitment_consistent:
  assumes wf: "index_consistent ext (evoDb s)"
      and cf: "collision_free ext (qc # qcs) (evoDb s)"
      and pr: "ProcessCommitment ext s qc height = Inr s'"
  shows "index_consistent ext (evoDb s') \<and> collision_free ext qcs (evoDb s')"
proof -
  note a = ProcessCommitment_Inr [OF pr]
  from a have fr: "minedCommitmentsByQuorum (evoDb s) (quorumType qc, quorumHash qc) = None"
    by simp
  from consistent_identities_unused [OF wf cf] fr
  have fh: "minedCommitments (evoDb s) (commitmentHash ext qc) = None"
    by (simp add: identities_unused_def)
  have "index_consistent ext (evoDb s')"
    unfolding index_consistent_def
  proof (intro allI impI)
    fix h qc' assume st: "minedCommitments (evoDb s') h = Some qc'"
    show "commitmentHash ext qc' = h \<and>
          (\<exists>m. minedCommitmentsByQuorum (evoDb s') (quorumType qc', quorumHash qc') = Some (h, m))"
    proof (cases "h = commitmentHash ext qc")
      case True
      with st a have "qc' = qc" by simp
      with True a show ?thesis by simp
    next
      case False
      with st a have old: "minedCommitments (evoDb s) h = Some qc'" by simp
      with wf have h: "commitmentHash ext qc' = h"
        and q: "\<exists>m. minedCommitmentsByQuorum (evoDb s) (quorumType qc', quorumHash qc') = Some (h, m)"
        by (simp_all add: index_consistent_def)
      from q fr have "(quorumType qc', quorumHash qc') \<noteq> (quorumType qc, quorumHash qc)"
        by auto
      with a q h show ?thesis by auto
    qed
  qed
  moreover have "collision_free ext qcs (evoDb s')"
  proof -
    have "ran (minedCommitments (evoDb s')) \<subseteq> insert qc (ran (minedCommitments (evoDb s)))"
      using a fh by (auto simp: ran_def split: if_splits)
    then have "set qcs \<union> ran (minedCommitments (evoDb s')) \<subseteq>
               set (qc # qcs) \<union> ran (minedCommitments (evoDb s))"
      by auto
    with cf show ?thesis
      unfolding collision_free_def by (rule inj_on_subset)
  qed
  ultimately show ?thesis by simp
qed

lemma ProcessCommitments_consistent:
  assumes "index_consistent ext (evoDb s)"
      and "collision_free ext (wellFormed ps) (evoDb s)"
      and "ProcessCommitments ext s ps height = Inr s'"
  shows "index_consistent ext (evoDb s')"
  using assms
proof (induction ext s ps height rule: ProcessCommitments.induct)
  case (1 ext s height)
  then show ?case by simp
next
  case (2 ext s ps height)
  then show ?case by simp
next
  case (3 ext s qc ps height)
  from "3.prems"(3) obtain s1 where
    p1: "ProcessCommitment ext s qc height = Inr s1" and
    p2: "ProcessCommitments ext s1 ps height = Inr s'"
    by (auto split: sum.splits)
  from "3.prems"(2) have cf: "collision_free ext (qc # wellFormed ps) (evoDb s)"
    by simp
  from ProcessCommitment_consistent [OF "3.prems"(1) cf p1]
  have "index_consistent ext (evoDb s1)" and "collision_free ext (wellFormed ps) (evoDb s1)"
    by simp_all
  from "3.IH" [OF p1 this p2] show ?case .
qed

lemma ProcessBlock_consistent:
  assumes "index_consistent ext (evoDb s)"
      and "collision_free ext (wellFormed (GetCommitmentsFromBlock ext block)) (evoDb s)"
      and "ProcessBlock ext s block prevBlockIndex = Inr s'"
  shows "index_consistent ext (evoDb s')"
  using ProcessCommitments_consistent [OF assms(1,2)] ProcessBlock_Inr [OF assms(3)]
  by blast

subsection \<open>The blocks of the example\<close>












subsection \<open>ProcessBlock followed by UndoBlock\<close>






section \<open>Properties of the coinbase payload checks\<close>

lemma version_in_range:
  "(x = 0 \<or> x > CURRENT_VERSION) \<longleftrightarrow> \<not> (1 \<le> x \<and> x \<le> CURRENT_VERSION)"
  unfolding CURRENT_VERSION_def
  by (simp add: word_le_nat_alt word_less_nat_alt unat_eq_0 not_le not_less)

lemma DoS_not_Inr: "DoS l c r \<noteq> Inr u"
  by (simp add: DoS_def)

lemma CheckCbTx_accepts_iff:
  "CheckCbTx IsCoinBase GetTxPayload tx pindexPrev = Inr () \<longleftrightarrow>
     (nType tx = TRANSACTION_COINBASE \<and> IsCoinBase tx \<and>
      (\<exists>cbTx. GetTxPayload tx = Some cbTx \<and>
         1 \<le> nVersion cbTx \<and> nVersion cbTx \<le> CURRENT_VERSION \<and>
         (case pindexPrev of
            None \<Rightarrow> True
          | Some prev \<Rightarrow> nHeight cbTx = nHeight_index prev + 1)))"
proof (cases "GetTxPayload tx")
  case None
  then show ?thesis by (simp add: CheckCbTx_def DoS_not_Inr)
next
  case (Some cbTx)
  show ?thesis
  proof (cases pindexPrev)
    case None
    with Some show ?thesis
      using version_in_range [of "nVersion cbTx"]
      by (simp add: CheckCbTx_def DoS_not_Inr)
  next
    case (Some prev)
    with \<open>GetTxPayload tx = Some cbTx\<close> show ?thesis
      using version_in_range [of "nVersion cbTx"]
      by (auto simp: CheckCbTx_def DoS_not_Inr)
  qed
qed

lemma CheckCbTx_rejections:
  "CheckCbTx IsCoinBase GetTxPayload tx pindexPrev = Inr () \<or>
   (\<exists>reason. CheckCbTx IsCoinBase GetTxPayload tx pindexPrev =
      Inl \<lparr> dosLevel = 100, chRejectCode = REJECT_INVALID, strRejectReason = reason \<rparr>)"
  unfolding CheckCbTx_def DoS_def
  by (cases "GetTxPayload tx"; cases pindexPrev) simp_all

lemma CheckCbTxMerkleRootMNList_coinbase:
  assumes "vtx block = first # rest"
      and "nType first = TRANSACTION_COINBASE"
      and "GetTxPayload first = Some cbTx"
  shows "CheckCbTxMerkleRootMNList GetTxPayload Build Sml Calc block None = Some (Inr ())"
    and "CheckCbTxMerkleRootMNList GetTxPayload Build Sml Calc block (Some pi) =
          Some (case CalcCbTxMerkleRootMNList Build Sml Calc block (pprev pi) 0 of
                  (ok, root) \<Rightarrow>
                    if ok \<and> root = merkleRootMNList cbTx then Inr ()
                    else DoS 100 REJECT_INVALID ''bad-cbtx-mnmerkleroot'')"
  using assms
  by (simp_all add: CheckCbTxMerkleRootMNList_def split: prod.splits)

lemma coinbaseBlock_first:
  "vtx coinbaseBlock = coinbaseTx # []" "nType coinbaseTx = TRANSACTION_COINBASE"
  "payload7 coinbaseTx = Some cbTx7"
  by (simp_all add: coinbaseBlock_def coinbaseTx_def payload7_def)

lemma calc_listRoot:
  "CalcCbTxMerkleRootMNList buildList toSml (listRoot root mutated) block pindexPrev r0 =
     (\<not> mutated, root)"
  by (simp add: CalcCbTxMerkleRootMNList_def buildList_def listRoot_def)

text \<open>
  C8, as stated: the block is rejected whenever the declared root differs from the
  computed one, and accepted on this check when the two are equal. With a null \<open>pindex\<close>
  the roots are not compared: the block that declares root 7 is accepted although the
  list's root is 8. With a non-null \<open>pindex\<close> and a list whose merkle tree is reported
  mutated, the block is rejected although the computed root is the declared root 7.
\<close>

theorem C8_merkle_root_counterexample:
  "merkleRootMNList cbTx7 = 7 \<and>
   CalcCbTxMerkleRootMNList buildList toSml (listRoot 8 False) coinbaseBlock None 0 = (True, 8) \<and>
   CheckCbTxMerkleRootMNList payload7 buildList toSml (listRoot 8 False) coinbaseBlock None
     = Some (Inr ()) \<and>
   CalcCbTxMerkleRootMNList buildList toSml (listRoot 7 True) coinbaseBlock
     (pprev (CBlockIndex 1 None)) 0 = (False, 7) \<and>
   CheckCbTxMerkleRootMNList payload7 buildList toSml (listRoot 7 True) coinbaseBlock
     (Some (CBlockIndex 1 None))
     = Some (Inl \<lparr> dosLevel = 100, chRejectCode = REJECT_INVALID,
                   strRejectReason = ''bad-cbtx-mnmerkleroot'' \<rparr>)"
  using coinbaseBlock_first
        CheckCbTxMerkleRootMNList_coinbase(1) [where block = coinbaseBlock and first = coinbaseTx
          and rest = "[]" and GetTxPayload = payload7 and cbTx = cbTx7 and Build = buildList
          and Sml = toSml and Calc = "listRoot 8 False"]
        CheckCbTxMerkleRootMNList_coinbase(2) [where block = coinbaseBlock and first = coinbaseTx
          and rest = "[]" and GetTxPayload = payload7 and cbTx = cbTx7 and Build = buildList
          and Sml = toSml and Calc = "listRoot 7 True" and pi = "CBlockIndex 1 None"]
  by (simp add: calc_listRoot DoS_def cbTx7_def)

text \<open>
  C8, amended: for a block whose first transaction has type \<open>TRANSACTION_COINBASE\<close> and a
  payload that deserialises, checked with a non-null \<open>pindex\<close>, let \<open>ok\<close> be what
  \<open>CalcCbTxMerkleRootMNList\<close> returns for \<open>pindex->pprev\<close> and \<open>root\<close> the root it
  leaves. \<open>CheckCbTxMerkleRootMNList\<close> accepts when \<open>ok\<close> holds (the list was built and
  its merkle tree is not mutated) and \<open>root\<close> is the declared root; otherwise, so
  whenever the two roots differ, it rejects with \<open>bad-cbtx-mnmerkleroot\<close>, ban score
  100 and \<open>REJECT_INVALID\<close>.
\<close>

theorem C8_merkle_root_checked:
  assumes "vtx block = first # rest"
      and "nType first = TRANSACTION_COINBASE"
      and "GetTxPayload first = Some cbTx"
      and "CalcCbTxMerkleRootMNList Build Sml Calc block (pprev pi) 0 = (ok, root)"
  shows "CheckCbTxMerkleRootMNList GetTxPayload Build Sml Calc block (Some pi) =
           Some (if ok \<and> root = merkleRootMNList cbTx then Inr ()
                 else Inl \<lparr> dosLevel = 100, chRejectCode = REJECT_INVALID,
                            strRejectReason = ''bad-cbtx-mnmerkleroot'' \<rparr>)"
  using assms
    CheckCbTxMerkleRootMNList_coinbase(2) [where block = block and first = first and rest = rest
      and GetTxPayload = GetTxPayload and cbTx = cbTx and Build = Build and Sml = Sml
      and Calc = Calc and pi = pi]
  by (simp add: DoS_def)

theorem C8_merkle_root_checked_witness:
  "CalcCbTxMerkleRootMNList buildList toSml (listRoot 8 False) coinbaseBlock
     (pprev (CBlockIndex 1 None)) 0 = (True, 8) \<and>
   CheckCbTxMerkleRootMNList payload7 buildList toSml (listRoot 8 False) coinbaseBlock
     (Some (CBlockIndex 1 None))
     = Some (Inl \<lparr> dosLevel = 100, chRejectCode = REJECT_INVALID,
                   strRejectReason = ''bad-cbtx-mnmerkleroot'' \<rparr>) \<and>
   CalcCbTxMerkleRootMNList buildList toSml (listRoot 7 False) coinbaseBlock
     (pprev (CBlockIndex 1 None)) 0 = (True, 7) \<and>
   CheckCbTxMerkleRootMNList payload7 buildList toSml (listRoot 7 False) coinbaseBlock
     (Some (CBlockIndex 1 None)) = Some (Inr ())"
proof -
  have c8: "CalcCbTxMerkleRootMNList buildList toSml (listRoot 8 False) coinbaseBlock
              (pprev (CBlockIndex 1 None)) 0 = (True, 8)"
    by (simp add: calc_listRoot)
  have c7: "CalcCbTxMerkleRootMNList buildList toSml (listRoot 7 False) coinbaseBlock
              (pprev (CBlockIndex 1 None)) 0 = (True, 7)"
    by (simp add: calc_listRoot)
  show ?thesis
    using c8 c7 coinbaseBlock_first
      C8_merkle_root_checked [where block = coinbaseBlock and first = coinbaseTx and rest = "[]"
        and GetTxPayload = payload7 and cbTx = cbTx7 and Build = buildList and Sml = toSml
        and Calc = "listRoot 8 False" and pi = "CBlockIndex 1 None" and ok = True and root = 8]
      C8_merkle_root_checked [where block = coinbaseBlock and first = coinbaseTx and rest = "[]"
        and GetTxPayload = payload7 and cbTx = cbTx7 and Build = buildList and Sml = toSml
        and Calc = "listRoot 7 False" and pi = "CBlockIndex 1 None" and ok = True and root = 7]
    by (simp add: cbTx7_def)
qed

text \<open>
  C9: \<open>CheckCbTx\<close> returns \<open>true\<close> exactly when the transaction has type
  \<open>TRANSACTION_COINBASE\<close>, is a coinbase, has a payload that deserialises to a \<open>CCbTx\<close>
  whose \<open>nVersion\<close> lies in \<open>[1, CURRENT_VERSION]\<close>, where \<open>CURRENT_VERSION\<close> is 1,
  and, when \<open>pindexPrev\<close> is not null, whose \<open>nHeight\<close> is \<open>pindexPrev->nHeight + 1\<close>.
  In every other case the result is a rejection with ban score 100 and
  \<open>REJECT_INVALID\<close>. The transaction and the block index are read-only arguments: the
  result is all the function produces.
\<close>

theorem C9_CheckCbTx:
  "CURRENT_VERSION = 1 \<and>
   (CheckCbTx IsCoinBase GetTxPayload tx pindexPrev = Inr () \<longleftrightarrow>
     (nType tx = TRANSACTION_COINBASE \<and> IsCoinBase tx \<and>
      (\<exists>cbTx. GetTxPayload tx = Some cbTx \<and>
         1 \<le> nVersion cbTx \<and> nVersion cbTx \<le> CURRENT_VERSION \<and>
         (case pindexPrev of
            None \<Rightarrow> True
          | Some prev \<Rightarrow> nHeight cbTx = nHeight_index prev + 1)))) \<and>
   (CheckCbTx IsCoinBase GetTxPayload tx pindexPrev = Inr () \<or>
    (\<exists>reason. CheckCbTx IsCoinBase GetTxPayload tx pindexPrev =
       Inl \<lparr> dosLevel = 100, chRejectCode = REJECT_INVALID, strRejectReason = reason \<rparr>))"
  using CheckCbTx_accepts_iff [of IsCoinBase GetTxPayload tx pindexPrev]
        CheckCbTx_rejections [of IsCoinBase GetTxPayload tx pindexPrev]
  by (simp add: CURRENT_VERSION_def)

theorem C9_CheckCbTx_witness:
  "CheckCbTx (\<lambda>tx. True) payload7 coinbaseTx (Some (CBlockIndex 0 None)) = Inr () \<and>
   CheckCbTx (\<lambda>tx. True) payload7 coinbaseTx None = Inr () \<and>
   CheckCbTx (\<lambda>tx. True) payload7 coinbaseTx (Some (CBlockIndex 5 None)) \<noteq> Inr () \<and>
   CheckCbTx (\<lambda>tx. True) payload7 (qcTx []) None \<noteq> Inr ()"
  using C9_CheckCbTx [of "\<lambda>tx. True" payload7 coinbaseTx "Some (CBlockIndex 0 None)"]
        C9_CheckCbTx [of "\<lambda>tx. True" payload7 coinbaseTx None]
        C9_CheckCbTx [of "\<lambda>tx. True" payload7 coinbaseTx "Some (CBlockIndex 5 None)"]
        C9_CheckCbTx [of "\<lambda>tx. True" payload7 "qcTx []" None]
  by (simp add: payload7_def coinbaseTx_def qcTx_def cbTx7_def CURRENT_VERSION_def)

section \<open>Properties of the payment vote serialisation\<close>

text \<open>
  Written to a stream of type \<open>SER_GETHASH\<close> (a flag, so not zero), a vote's
  serialisation leaves \<open>vchSig\<close> out: two votes that agree on \<open>masternodeOutpoint\<close>,
  \<open>nBlockHeight\<close> and \<open>payee\<close> are written alike there, whatever their signatures
  are. On a stream without the flag the signature is written.
\<close>

lemma SerializationOp_SER_GETHASH_omits_vchSig:
  assumes "SER_GETHASH ser \<noteq> 0"
      and "masternodeOutpoint v1 = masternodeOutpoint v2"
      and "nBlockHeight v1 = nBlockHeight v2"
      and "payee v1 = payee v2"
  shows "SerializationOp ser (SER_GETHASH ser) v1 = SerializationOp ser (SER_GETHASH ser) v2"
  using assms by (simp add: SerializationOp_def)

lemma SerializationOp_votes:
  "SerializationOp lengthSerializer (SER_GETHASH lengthSerializer) voteUnsigned =
     SerializationOp lengthSerializer (SER_GETHASH lengthSerializer) voteSigned \<and>
   SerializationOp lengthSerializer 1 voteUnsigned \<noteq> SerializationOp lengthSerializer 1 voteSigned"
proof -
  have n: "(1 :: 32 word) AND 4 = 0"
    by simp
  show ?thesis
    using n
    by (simp add: SerializationOp_def lengthSerializer_def voteUnsigned_def voteSigned_def)
qed

end
